theory Spec2Isabelle
  imports Complex_Main
begin

section \<open>JavaScript values\<close>

text \<open>
  The pages read numbers out of form fields (\<^verbatim>\<open>parseFloat\<close>) and out of parsed JSON
  bodies. A number of the runtime is a finite value, one of the two infinities, or NaN.
  Finite doubles are idealised as reals: rounding, overflow and the sign of zero are
  outside this model.
\<close>

datatype jsnum = Fin real | PosInf | NegInf | NaN

text \<open>The relational operators on numbers: every comparison with NaN is false.\<close>

fun num_le :: "jsnum \<Rightarrow> jsnum \<Rightarrow> bool" where
  "num_le NaN _ = False"
| "num_le _ NaN = False"
| "num_le NegInf _ = True"
| "num_le _ PosInf = True"
| "num_le (Fin x) (Fin y) = (x \<le> y)"
| "num_le _ _ = False"

fun num_lt :: "jsnum \<Rightarrow> jsnum \<Rightarrow> bool" where
  "num_lt NaN _ = False"
| "num_lt _ NaN = False"
| "num_lt PosInf _ = False"
| "num_lt _ NegInf = False"
| "num_lt (Fin x) (Fin y) = (x < y)"
| "num_lt _ _ = True"

definition num_gt :: "jsnum \<Rightarrow> jsnum \<Rightarrow> bool" where
  "num_gt a b = num_lt b a"

definition num_ge :: "jsnum \<Rightarrow> jsnum \<Rightarrow> bool" where
  "num_ge a b = num_le b a"


section \<open>Manual estimation: the form validator\<close>

text \<open>
  \<^verbatim>\<open>getManualFormData\<close> fills \<^verbatim>\<open>data.room\<close> with \<^verbatim>\<open>parseFloat\<close> of the three
  dimension fields, so each of them is a number of the runtime (NaN for an empty or
  non-numeric field). \<^verbatim>\<open>validateManualForm\<close> reads only these three.
\<close>

record room =
  room_length :: jsnum
  room_width :: jsnum
  room_height :: jsnum

text \<open>
  The validator returns its verdict and calls \<^verbatim>\<open>showError\<close> with a message on
  rejection; the model returns the verdict together with the message shown, if any.
\<close>

definition validateManualForm :: "room \<Rightarrow> bool \<times> string option" where
  "validateManualForm r =
     (if num_le (room_length r) (Fin 0) \<or> num_le (room_width r) (Fin 0)
         \<or> num_le (room_height r) (Fin 0)
      then (False, Some ''Room dimensions must be greater than 0'')
      else if num_gt (room_length r) (Fin 100) \<or> num_gt (room_width r) (Fin 100)
         \<or> num_gt (room_height r) (Fin 20)
      then (False, Some ''Room dimensions seem too large. Please check your inputs.'')
      else (True, None))"

text \<open>What the specification asks of an accepted manual input.\<close>

definition dimension_ok :: "real \<Rightarrow> jsnum \<Rightarrow> bool" where
  "dimension_ok bound n = (case n of Fin x \<Rightarrow> 0 < x \<and> x \<le> bound | _ \<Rightarrow> False)"

definition manual_input_ok :: "room \<Rightarrow> bool" where
  "manual_input_ok r =
     (dimension_ok 100 (room_length r) \<and> dimension_ok 100 (room_width r)
      \<and> dimension_ok 20 (room_height r))"

section \<open>Image estimation page: selection state\<close>

text \<open>
  A \<^verbatim>\<open>File\<close> of the browser, as far as the page looks at it: its name and its MIME
  type.
\<close>

record jsfile =
  file_name :: string
  file_type :: string

definition startsWith :: "string \<Rightarrow> string \<Rightarrow> bool" where
  "startsWith s p = (take (length p) s = p)"

definition is_image :: "jsfile \<Rightarrow> bool" where
  "is_image f = startsWith (file_type f) ''image/''"

text \<open>A call of \<^verbatim>\<open>showToast(type, title, message)\<close>.\<close>

type_synonym toast = "string \<times> string \<times> string"

text \<open>
  The values a \<^verbatim>\<open>FormData\<close> entry holds: a file, a string, or the text that
  \<^verbatim>\<open>JSON.stringify\<close> yields for an array of room descriptors (kept as the array it
  encodes).
\<close>

record descriptor =
  room_type :: string
  room_name :: string
  paint_type :: string
  num_coats :: jsnum
  include_ceiling :: bool

datatype form_value = FileV jsfile | StrV string | JsonV "descriptor list"

type_synonym form_data = "(string \<times> form_value) list"

text \<open>One \<^verbatim>\<open>fetch\<close> with method POST: the path under the base URL and the body.\<close>

record request =
  req_path :: string
  req_body :: form_data

text \<open>
  The module state of \<^verbatim>\<open>image-estimation.js\<close> (\<^verbatim>\<open>uploadedImages\<close>), the values
  of the four select controls the handlers read, whether the loading overlay is shown,
  and the observable effects so far: the toasts shown and the requests sent.
\<close>

record page =
  uploadedImages :: "jsfile list"
  single_room_type :: string
  single_paint_type :: string
  multi_room_type :: string
  multi_paint_type :: string
  loading :: bool
  toasts :: "toast list"
  posts :: "request list"

definition showToast :: "string \<Rightarrow> string \<Rightarrow> string \<Rightarrow> page \<Rightarrow> page" where
  "showToast ty title msg s = s\<lparr>toasts := toasts s @ [(ty, title, msg)]\<rparr>"

definition showLoading :: "bool \<Rightarrow> page \<Rightarrow> page" where
  "showLoading b s = s\<lparr>loading := b\<rparr>"

text \<open>
  \<^verbatim>\<open>displaySingleImage\<close> rejects a file that is not an image; otherwise it starts a
  \<^verbatim>\<open>FileReader\<close> whose \<^verbatim>\<open>onload\<close> callback replaces the selection by that one
  file. The model returns the state after the synchronous part and whether a read was
  started; \<^verbatim>\<open>single_onload\<close> is the callback.
\<close>

definition displaySingleImage :: "jsfile \<Rightarrow> page \<Rightarrow> page \<times> bool" where
  "displaySingleImage f s =
     (if \<not> is_image f
      then (showToast ''error'' ''Invalid File'' ''Please upload an image file'' s, False)
      else (s, True))"

definition single_onload :: "jsfile \<Rightarrow> page \<Rightarrow> page" where
  "single_onload f s = s\<lparr>uploadedImages := [f]\<rparr>"

definition removeSingleImage :: "page \<Rightarrow> page" where
  "removeSingleImage s = s\<lparr>uploadedImages := []\<rparr>"

definition addMultipleImages :: "jsfile list \<Rightarrow> page \<Rightarrow> page" where
  "addMultipleImages files s =
     (let imageFiles = filter is_image files in
      if length imageFiles = 0
      then showToast ''error'' ''Invalid Files'' ''Please upload image files'' s
      else if length (uploadedImages s) + length imageFiles > 4
      then showToast ''warning'' ''Too Many Images'' ''Maximum 4 images allowed'' s
      else s\<lparr>uploadedImages := uploadedImages s @ imageFiles\<rparr>)"

text \<open>
  \<^verbatim>\<open>Array.prototype.splice(index, 1)\<close>: a negative start counts from the end, the
  start is clamped to the array, and one element is removed if there is one there.
\<close>

definition splice1 :: "int \<Rightarrow> 'a list \<Rightarrow> 'a list" where
  "splice1 i xs =
     (let n = int (length xs);
          start = nat (if i < 0 then max (n + i) 0 else min i n)
      in take start xs @ drop (Suc start) xs)"

definition removeMultiImage :: "int \<Rightarrow> page \<Rightarrow> page" where
  "removeMultiImage index s = s\<lparr>uploadedImages := splice1 index (uploadedImages s)\<rparr>"

section \<open>Image estimation page: submission\<close>

text \<open>Decimal digits of a natural number, as a template literal prints an index.\<close>

definition digit :: "nat \<Rightarrow> char" where
  "digit d = ''0123456789'' ! d"

fun show_nat :: "nat \<Rightarrow> string" where
  "show_nat n =
     (if n < 10 then [digit n]
      else show_nat (n div 10) @ [digit (n mod 10)])"

declare show_nat.simps [simp del]

text \<open>
  The \<^verbatim>\<open>roomData\<close> array of \<^verbatim>\<open>handleMultiSubmit\<close>: \<^verbatim>\<open>uploadedImages.map\<close> with the
  element's index; \<^verbatim>\<open>parseInt('2')\<close> is 2.
\<close>

definition roomData :: "page \<Rightarrow> descriptor list" where
  "roomData s =
     map (\<lambda>index.
            \<lparr>room_type = multi_room_type s,
             room_name = ''Wall '' @ show_nat (index + 1),
             paint_type = multi_paint_type s,
             num_coats = Fin 2,
             include_ceiling = False\<rparr>)
         [0 ..< length (uploadedImages s)]"

text \<open>
  The handlers up to their first \<^verbatim>\<open>await\<close>: the check of the selection, the payload,
  the overlay, and the \<^verbatim>\<open>fetch\<close>. Neither handler reads the overlay or any other
  record of a request being under way.
\<close>

definition handleSingleSubmit :: "page \<Rightarrow> page" where
  "handleSingleSubmit s =
     (if length (uploadedImages s) = 0
      then showToast ''warning'' ''No Image'' ''Please upload an image first'' s
      else
        let formData =
              [(''image'', FileV (hd (uploadedImages s))),
               (''room_type'', StrV (single_room_type s)),
               (''paint_type'', StrV (single_paint_type s)),
               (''num_coats'', StrV ''2'')];
            s1 = showLoading True s
        in s1\<lparr>posts := posts s1 @
               [\<lparr>req_path = ''/estimate/cv/single-room'', req_body = formData\<rparr>]\<rparr>)"

definition handleMultiSubmit :: "page \<Rightarrow> page" where
  "handleMultiSubmit s =
     (if length (uploadedImages s) < 2
      then showToast ''warning'' ''Not Enough Images''
             ''Please upload at least 2 wall images'' s
      else
        let formData =
              map (\<lambda>f. (''images'', FileV f)) (uploadedImages s)
              @ [(''room_data'', JsonV (roomData s))];
            s1 = showLoading True s
        in s1\<lparr>posts := posts s1 @
               [\<lparr>req_path = ''/estimate/cv/multi-room'', req_body = formData\<rparr>]\<rparr>)"

text \<open>
  The rest of a handler, run when the response arrives: the toast of the outcome
  (\<^verbatim>\<open>rendered\<close> tells whether the response was ok and \<^verbatim>\<open>displayResults\<close> returned), and
  in the \<^verbatim>\<open>finally\<close> block the overlay is hidden.
\<close>

definition single_settled :: "bool \<Rightarrow> page \<Rightarrow> page" where
  "single_settled rendered s =
     showLoading False
       (if rendered
        then showToast ''success'' ''Analysis Complete''
               ''Room dimensions extracted successfully'' s
        else showToast ''error'' ''Analysis Failed''
               ''Please try again with a clearer image'' s)"

definition multi_settled :: "bool \<Rightarrow> page \<Rightarrow> page" where
  "multi_settled rendered s =
     showLoading False
       (if rendered
        then showToast ''success'' ''Analysis Complete''
               ''Multi-wall estimation completed'' s
        else showToast ''error'' ''Analysis Failed'' ''Please try again'' s)"

section \<open>Image estimation page: events\<close>

text \<open>
  What can happen on the page: the user adds or removes wall images, picks a single image
  (the check, and later the \<^verbatim>\<open>onload\<close> callback of the read it started), clears it,
  changes a select control, submits either form, and a request that was sent settles.
  The events are not ordered: a load or a settlement may fire without the read or the
  request before it, so the model allows every run of the page and more.
\<close>

datatype event =
    AddMultiple "jsfile list"
  | RemoveMulti int
  | SelectSingle jsfile
  | SingleLoaded jsfile
  | RemoveSingle
  | SetControls string string string string
  | SubmitSingle
  | SubmitMulti
  | SingleSettled bool
  | MultiSettled bool

definition fire :: "event \<Rightarrow> page \<Rightarrow> page" where
  "fire e s =
     (case e of
        AddMultiple files \<Rightarrow> addMultipleImages files s
      | RemoveMulti i \<Rightarrow> removeMultiImage i s
      | SelectSingle f \<Rightarrow> fst (displaySingleImage f s)
      | SingleLoaded f \<Rightarrow> single_onload f s
      | RemoveSingle \<Rightarrow> removeSingleImage s
      | SetControls a b c d \<Rightarrow>
          s\<lparr>single_room_type := a, single_paint_type := b,
            multi_room_type := c, multi_paint_type := d\<rparr>
      | SubmitSingle \<Rightarrow> handleSingleSubmit s
      | SubmitMulti \<Rightarrow> handleMultiSubmit s
      | SingleSettled r \<Rightarrow> single_settled r s
      | MultiSettled r \<Rightarrow> multi_settled r s)"

fun run :: "event list \<Rightarrow> page \<Rightarrow> page" where
  "run [] s = s"
| "run (e # es) s = run es (fire e s)"

definition initial_page :: "page" where
  "initial_page =
     \<lparr>uploadedImages = [], single_room_type = [], single_paint_type = [],
      multi_room_type = [], multi_paint_type = [], loading = False,
      toasts = [], posts = []\<rparr>"

text \<open>
  The states the page reaches from a fresh load (no image selected, nothing shown or
  sent; the select controls are taken as empty until set).
\<close>

inductive reachable :: "page \<Rightarrow> bool" where
  init: "reachable initial_page"
| step: "reachable s \<Longrightarrow> reachable (fire e s)"

section \<open>Manual estimation page (new UI): multi-wall selection\<close>

text \<open>
  \<^verbatim>\<open>selectedWalls\<close> of \<^verbatim>\<open>manual-estimation-new.js\<close>: each entry holds the file and a
  name (the preview data is not read by the payload builder).
\<close>

record wall =
  wall_file :: jsfile
  wall_name :: string

text \<open>
  The \<^verbatim>\<open>onload\<close> callback of \<^verbatim>\<open>handleMultiWallSelect\<close> pushes the file under the
  name of the next position; \<^verbatim>\<open>removeWall\<close> splices one entry out and renumbers the
  rest; switching the upload mode empties the list.
\<close>

definition wall_onload :: "jsfile \<Rightarrow> wall list \<Rightarrow> wall list" where
  "wall_onload f ws =
     ws @ [\<lparr>wall_file = f, wall_name = ''Wall '' @ show_nat (length ws + 1)\<rparr>]"

definition renumber :: "wall list \<Rightarrow> wall list" where
  "renumber ws =
     map (\<lambda>(wl, i). wl\<lparr>wall_name := ''Wall '' @ show_nat (i + 1)\<rparr>)
         (zip ws [0 ..< length ws])"

definition removeWall :: "int \<Rightarrow> wall list \<Rightarrow> wall list" where
  "removeWall index ws = renumber (splice1 index ws)"

inductive walls_reachable :: "wall list \<Rightarrow> bool" where
  walls_empty: "walls_reachable []"
| walls_loaded: "walls_reachable ws \<Longrightarrow> walls_reachable (wall_onload f ws)"
| walls_removed: "walls_reachable ws \<Longrightarrow> walls_reachable (removeWall i ws)"

text \<open>
  The \<^verbatim>\<open>roomData\<close> array of \<^verbatim>\<open>handleMultiWallEstimation\<close>. The three controls it
  reads are parameters: the room type, the paint type, and \<^verbatim>\<open>parseInt\<close> of the number
  of coats.
\<close>

definition wallRoomData :: "string \<Rightarrow> string \<Rightarrow> jsnum \<Rightarrow> wall list \<Rightarrow> descriptor list" where
  "wallRoomData rt pt coats ws =
     map (\<lambda>wl. \<lparr>room_type = rt, room_name = wall_name wl, paint_type = pt,
                 num_coats = coats, include_ceiling = False\<rparr>) ws"

text \<open>
  \<^verbatim>\<open>handleMultiWallEstimation\<close> up to its first \<^verbatim>\<open>await\<close>: the message it shows
  on rejection, or the request it sends.
\<close>

definition handleMultiWallEstimation ::
  "string \<Rightarrow> string \<Rightarrow> jsnum \<Rightarrow> wall list \<Rightarrow> string + request" where
  "handleMultiWallEstimation rt pt coats ws =
     (if length ws < 2
      then Inl ''Please select at least 2 wall images for multi-wall mode''
      else Inr \<lparr>req_path = ''/api/v1/estimate/cv/multi-room'',
                req_body = map (\<lambda>wl. (''images'', FileV (wall_file wl))) ws
                           @ [(''room_data'', JsonV (wallRoomData rt pt coats ws))]\<rparr>)"

section \<open>Video estimation page: submission\<close>



section \<open>Example selections\<close>

definition img :: "string \<Rightarrow> jsfile" where
  "img n = \<lparr>file_name = n, file_type = ''image/png''\<rparr>"


definition one_wall :: page where
  "one_wall = fire (AddMultiple [img ''a'']) initial_page"

definition two_walls :: page where
  "two_walls = run [AddMultiple [img ''a'', img ''b'']] initial_page"

definition three_walls :: page where
  "three_walls = fire (AddMultiple [img ''a'', img ''b'', img ''c'']) initial_page"

definition five_files :: "jsfile list" where
  "five_files = [img ''a'', img ''b'', img ''c'', img ''d'', img ''e'']"

definition two_loaded :: "wall list" where
  "two_loaded = wall_onload (img ''b'') (wall_onload (img ''a'') [])"


section \<open>Parsed JSON and the operators the renderers use\<close>

text \<open>
  A value as \<^verbatim>\<open>response.json()\<close> delivers it, or as reading a property of such a value
  yields it (\<^verbatim>\<open>undefined\<close> for a property that is not there). An object is an
  association list of its own properties, read with \<^const>\<open>map_of\<close>. Strings are
  taken as sequences of one-unit characters.
\<close>

datatype jsval =
    Undefined
  | Null
  | Bool bool
  | Num jsnum
  | Str string
  | Arr "jsval list"
  | Obj "(string \<times> jsval) list"

text \<open>The one exception the renderers can raise on such values.\<close>

datatype error = TypeError

definition and_then :: "error + 'a \<Rightarrow> ('a \<Rightarrow> error + 'b) \<Rightarrow> error + 'b" where
  "and_then m f = (case m of Inl e \<Rightarrow> Inl e | Inr x \<Rightarrow> f x)"

fun truthy :: "jsval \<Rightarrow> bool" where
  "truthy Undefined = False"
| "truthy Null = False"
| "truthy (Bool b) = b"
| "truthy (Num (Fin x)) = (x \<noteq> 0)"
| "truthy (Num NaN) = False"
| "truthy (Num _) = True"
| "truthy (Str s) = (s \<noteq> [])"
| "truthy (Arr _) = True"
| "truthy (Obj _) = True"

text \<open>\<^verbatim>\<open>a || b\<close>, for an operand \<^verbatim>\<open>b\<close> whose evaluation cannot raise.\<close>

definition or_else :: "jsval \<Rightarrow> jsval \<Rightarrow> jsval" where
  "or_else a b = (if truthy a then a else b)"

definition nullish :: "jsval \<Rightarrow> bool" where
  "nullish v = (v = Undefined \<or> v = Null)"

text \<open>
  \<^verbatim>\<open>v.k\<close> for a value that is neither \<^verbatim>\<open>null\<close> nor \<^verbatim>\<open>undefined\<close> and a key \<^verbatim>\<open>k\<close>
  that names data: an own property of an object, the length or an element of an array or
  a string. (The renderers call methods only through the operations modelled below.)
\<close>

definition index_of_key :: "string \<Rightarrow> nat \<Rightarrow> nat option" where
  "index_of_key k n =
     (case filter (\<lambda>i. show_nat i = k) [0 ..< n] of [] \<Rightarrow> None | i # _ \<Rightarrow> Some i)"

definition js_prop :: "jsval \<Rightarrow> string \<Rightarrow> jsval" where
  "js_prop v k =
     (case v of
        Obj kvs \<Rightarrow> (case map_of kvs k of Some x \<Rightarrow> x | None \<Rightarrow> Undefined)
      | Arr xs \<Rightarrow>
          if k = ''length'' then Num (Fin (real (length xs)))
          else (case index_of_key k (length xs) of Some i \<Rightarrow> xs ! i | None \<Rightarrow> Undefined)
      | Str s \<Rightarrow>
          if k = ''length'' then Num (Fin (real (length s)))
          else (case index_of_key k (length s) of Some i \<Rightarrow> Str [s ! i] | None \<Rightarrow> Undefined)
      | _ \<Rightarrow> Undefined)"

text \<open>\<^verbatim>\<open>v.k\<close> raises on \<^verbatim>\<open>null\<close> and \<^verbatim>\<open>undefined\<close>; \<^verbatim>\<open>v?.k\<close> yields \<^verbatim>\<open>undefined\<close> there.\<close>

definition get :: "jsval \<Rightarrow> string \<Rightarrow> error + jsval" where
  "get v k = (if nullish v then Inl TypeError else Inr (js_prop v k))"

definition oget :: "jsval \<Rightarrow> string \<Rightarrow> jsval" where
  "oget v k = (if nullish v then Undefined else js_prop v k)"

definition is_num :: "jsval \<Rightarrow> bool" where
  "is_num v = (case v of Num _ \<Rightarrow> True | _ \<Rightarrow> False)"

text \<open>
  Conversion to a primitive raises on an object that has an own property \<^verbatim>\<open>toString\<close>
  (parsed JSON holds no function, so the property hides the inherited method and is not
  callable), and on an array with such an element, which \<^verbatim>\<open>join\<close> converts in turn.
\<close>

fun convertible :: "jsval \<Rightarrow> bool" where
  "convertible (Obj kvs) = (''toString'' \<notin> set (map fst kvs))"
| "convertible (Arr xs) = list_all convertible xs"
| "convertible _ = True"

text \<open>
  \<^verbatim>\<open>ToNumber\<close>. What number a string denotes, and an array through the string it joins
  to, is left to the runtime: the parameter \<open>coerce\<close>.
\<close>

definition to_number :: "(jsval \<Rightarrow> jsnum) \<Rightarrow> jsval \<Rightarrow> error + jsnum" where
  "to_number coerce v =
     (case v of
        Undefined \<Rightarrow> Inr NaN
      | Null \<Rightarrow> Inr (Fin 0)
      | Bool b \<Rightarrow> Inr (Fin (if b then 1 else 0))
      | Num n \<Rightarrow> Inr n
      | Str s \<Rightarrow> Inr (coerce v)
      | Arr xs \<Rightarrow> if convertible v then Inr (coerce v) else Inl TypeError
      | Obj kvs \<Rightarrow> if convertible v then Inr NaN else Inl TypeError)"

text \<open>\<^verbatim>\<open>v > 0\<close>.\<close>

definition gt0 :: "(jsval \<Rightarrow> jsnum) \<Rightarrow> jsval \<Rightarrow> error + bool" where
  "gt0 coerce v = and_then (to_number coerce v) (\<lambda>n. Inr (num_gt n (Fin 0)))"

definition inf_of :: "bool \<Rightarrow> jsnum" where
  "inf_of positive = (if positive then PosInf else NegInf)"

fun num_mul :: "jsnum \<Rightarrow> jsnum \<Rightarrow> jsnum" where
  "num_mul NaN _ = NaN"
| "num_mul _ NaN = NaN"
| "num_mul (Fin x) (Fin y) = Fin (x * y)"
| "num_mul (Fin x) PosInf = (if x = 0 then NaN else inf_of (0 < x))"
| "num_mul (Fin x) NegInf = (if x = 0 then NaN else inf_of (x < 0))"
| "num_mul PosInf (Fin y) = (if y = 0 then NaN else inf_of (0 < y))"
| "num_mul NegInf (Fin y) = (if y = 0 then NaN else inf_of (y < 0))"
| "num_mul PosInf PosInf = PosInf"
| "num_mul PosInf NegInf = NegInf"
| "num_mul NegInf PosInf = NegInf"
| "num_mul NegInf NegInf = PosInf"

text \<open>Division; a zero divisor is taken as positive zero.\<close>

fun num_div :: "jsnum \<Rightarrow> jsnum \<Rightarrow> jsnum" where
  "num_div NaN _ = NaN"
| "num_div _ NaN = NaN"
| "num_div (Fin x) (Fin y) =
     (if y \<noteq> 0 then Fin (x / y) else if x = 0 then NaN else inf_of (0 < x))"
| "num_div (Fin x) _ = Fin 0"
| "num_div PosInf (Fin y) = inf_of (0 \<le> y)"
| "num_div NegInf (Fin y) = inf_of (y < 0)"
| "num_div _ _ = NaN"

text \<open>\<^verbatim>\<open>Math.round\<close>: the nearest integer, halves upwards.\<close>

definition math_round :: "jsnum \<Rightarrow> jsnum" where
  "math_round n = (case n of Fin x \<Rightarrow> Fin (of_int \<lfloor>x + 1 / 2\<rfloor>) | _ \<Rightarrow> n)"

text \<open>
  What a template literal puts into the page for one expression: fixed text, a number
  printed by \<^verbatim>\<open>toFixed\<close> with the given count of decimals, a value converted by
  \<^verbatim>\<open>${...}\<close>, the conversion of \<^verbatim>\<open>a + b\<close>, or the text \<^verbatim>\<open>toLocaleString\<close> gives
  for a value.
\<close>

datatype cell =
    Text string
  | Fixed nat jsnum
  | Interp jsval
  | InterpPlus jsval jsval
  | Localized jsval

text \<open>\<^verbatim>\<open>v.toFixed(d)\<close>: only a number has the method.\<close>

definition toFixed :: "jsval \<Rightarrow> nat \<Rightarrow> error + cell" where
  "toFixed v d = (case v of Num n \<Rightarrow> Inr (Fixed d n) | _ \<Rightarrow> Inl TypeError)"

definition interp :: "jsval \<Rightarrow> error + cell" where
  "interp v = (if convertible v then Inr (Interp v) else Inl TypeError)"

section \<open>Image estimation page: rendering a response\<close>

text \<open>
  \<^verbatim>\<open>displayResults\<close> of \<^verbatim>\<open>image-estimation.js\<close>. The dimensions come from the first
  room when \<^verbatim>\<open>data.rooms\<close> has a positive length, else from \<^verbatim>\<open>data.dimensions\<close>;
  reading \<^verbatim>\<open>estimation\<close> raises when the first room is \<^verbatim>\<open>null\<close> or missing.
\<close>

definition first_room_dimensions :: "jsval \<Rightarrow> error + jsval" where
  "first_room_dimensions rooms =
     (let firstRoom = js_prop rooms ''0'' in
      and_then (get firstRoom ''estimation'') (\<lambda>estimation.
        Inr (or_else (or_else (oget estimation ''dimensions'') estimation) (Obj []))))"

definition response_dimensions :: "(jsval \<Rightarrow> jsnum) \<Rightarrow> jsval \<Rightarrow> error + jsval" where
  "response_dimensions coerce data =
     (let rooms = js_prop data ''rooms'' in
      and_then (if truthy rooms then gt0 coerce (js_prop rooms ''length'') else Inr False)
        (\<lambda>has_rooms.
           if has_rooms then first_room_dimensions rooms
           else Inr (or_else (js_prop data ''dimensions'') (Obj []))))"

text \<open>
  The estimate from the area: \<^verbatim>\<open>roomCount\<close> is \<^verbatim>\<open>(data.rooms && data.rooms.length) || 1\<close>,
  the height is taken as 10, and the room as square.
\<close>

record estimate =
  roomCount :: jsval
  wallArea :: jsnum
  perimeter :: jsnum
  estimatedSide :: jsnum

definition estimatedHeight :: jsnum where
  "estimatedHeight = Fin 10"

definition area_estimate :: "(jsval \<Rightarrow> jsnum) \<Rightarrow> jsval \<Rightarrow> jsval \<Rightarrow> error + estimate" where
  "area_estimate coerce data paintableArea =
     (let rooms = js_prop data ''rooms'';
          count = or_else (if truthy rooms then js_prop rooms ''length'' else rooms)
                          (Num (Fin 1))
      in and_then (to_number coerce paintableArea) (\<lambda>area.
         and_then (to_number coerce count) (\<lambda>n.
           let wall = num_div area n;
               per = num_div (num_mul wall (Fin 2)) estimatedHeight
           in Inr \<lparr>roomCount = count, wallArea = wall, perimeter = per,
                    estimatedSide = num_div per (Fin 2)\<rparr>)))"

text \<open>\<^verbatim>\<open>v > 0 ? v.toFixed(1) : 'Auto'\<close>.\<close>

definition dimension_cell :: "(jsval \<Rightarrow> jsnum) \<Rightarrow> jsval \<Rightarrow> error + cell" where
  "dimension_cell coerce v =
     and_then (gt0 coerce v) (\<lambda>positive. if positive then toFixed v 1 else Inr (Text ''Auto''))"

text \<open>
  The dimensions the function goes on with: those read from the response, each
  defaulted to 0, or the estimate when length and width are both 0 and a paintable area
  is known.
\<close>

definition paintableArea_of :: "jsval \<Rightarrow> jsval" where
  "paintableArea_of data =
     or_else (js_prop data ''total_paintable_area'')
             (oget (js_prop data ''area_calculation'') ''paintable_area'')"

definition resolved_dimensions ::
  "(jsval \<Rightarrow> jsnum) \<Rightarrow> jsval \<Rightarrow> error + jsval \<times> jsval \<times> jsval" where
  "resolved_dimensions coerce data =
     and_then (response_dimensions coerce data) (\<lambda>dimensions.
       let length0 = or_else (js_prop dimensions ''length'') (Num (Fin 0));
           width0 = or_else (js_prop dimensions ''width'') (Num (Fin 0));
           height0 = or_else (js_prop dimensions ''height'') (Num (Fin 0));
           paintableArea = paintableArea_of data
       in if length0 = Num (Fin 0) \<and> width0 = Num (Fin 0) \<and> truthy paintableArea
          then and_then (area_estimate coerce data paintableArea) (\<lambda>e.
                 Inr (Num (estimatedSide e), Num (estimatedSide e), Num estimatedHeight))
          else Inr (length0, width0, height0))"

text \<open>
  What the function leaves in the results container: the three dimensions after the
  fallback, and the six values of the markup.
\<close>

record result =
  dims_length :: jsval
  dims_width :: jsval
  dims_height :: jsval
  paintable_cell :: cell
  paint_cell :: cell
  length_cell :: cell
  width_cell :: cell
  height_cell :: cell
  cost_cell :: cell

text \<open>
  The function returns at once when the page has no results container
  (\<open>has_container\<close>). \<^verbatim>\<open>response.data\<close> raises on a \<^verbatim>\<open>null\<close> body; after it
  \<^verbatim>\<open>data\<close> is neither \<^verbatim>\<open>null\<close> nor \<^verbatim>\<open>undefined\<close>, and \<^verbatim>\<open>dimensions\<close> is truthy.
\<close>

definition displayResults ::
  "(jsval \<Rightarrow> jsnum) \<Rightarrow> bool \<Rightarrow> jsval \<Rightarrow> error + result option" where
  "displayResults coerce has_container response =
     (if \<not> has_container then Inr None
      else if nullish response then Inl TypeError
      else
        let data = or_else (js_prop response ''data'') response in
        and_then (resolved_dimensions coerce data) (\<lambda>(length1, width1, height1).
        and_then (toFixed (or_else (paintableArea_of data) (Num (Fin 0))) 1) (\<lambda>c1.
        and_then (toFixed
                    (or_else
                       (or_else (js_prop data ''total_paint_required'')
                          (oget (oget (js_prop data ''product_breakdown'') ''paint'')
                                ''quantity''))
                       (Num (Fin 0))) 2) (\<lambda>c2.
        and_then (dimension_cell coerce length1) (\<lambda>c3.
        and_then (dimension_cell coerce width1) (\<lambda>c4.
        and_then (dimension_cell coerce height1) (\<lambda>c5.
        and_then (toFixed
                    (or_else
                       (or_else (js_prop data ''total_cost'')
                          (oget (js_prop data ''cost_breakdown'') ''total_cost''))
                       (Num (Fin 0))) 0) (\<lambda>c6.
          Inr (Some \<lparr>dims_length = length1, dims_width = width1, dims_height = height1,
                      paintable_cell = c1, paint_cell = c2, length_cell = c3,
                      width_cell = c4, height_cell = c5, cost_cell = c6\<rparr>)))))))))"

text \<open>
  \<^verbatim>\<open>v.toLocaleString()\<close> raises on \<^verbatim>\<open>null\<close> and \<^verbatim>\<open>undefined\<close>, on an object with
  an own property \<^verbatim>\<open>toLocaleString\<close> or \<^verbatim>\<open>toString\<close>, and on an array that has
  such an element other than \<^verbatim>\<open>null\<close>.
\<close>

fun localizable :: "jsval \<Rightarrow> bool" where
  "localizable (Obj kvs) =
     (''toLocaleString'' \<notin> set (map fst kvs) \<and> ''toString'' \<notin> set (map fst kvs))"
| "localizable (Arr xs) = list_all (\<lambda>x. x = Null \<or> localizable x) xs"
| "localizable Undefined = False"
| "localizable Null = False"
| "localizable _ = True"

definition toLocaleString :: "jsval \<Rightarrow> error + cell" where
  "toLocaleString v = (if localizable v then Inr (Localized v) else Inl TypeError)"

text \<open>The results of a list of steps, up to the first that raises.\<close>

fun collect :: "(error + 'a) list \<Rightarrow> error + 'a list" where
  "collect [] = Inr []"
| "collect (m # ms) = and_then m (\<lambda>x. and_then (collect ms) (\<lambda>xs. Inr (x # xs)))"

section \<open>Floor plan: rendering a response\<close>

text \<open>One row of the room table: the callback of \<^verbatim>\<open>rooms.forEach\<close>.\<close>

record fp_row =
  row_name :: cell
  row_length :: cell
  row_width :: cell
  row_floor_area :: cell
  row_wall_area :: cell
  row_doors :: cell
  row_windows :: cell
  row_paint :: cell
  row_cost :: cell

definition floorplan_row :: "jsval \<Rightarrow> error + fp_row" where
  "floorplan_row room =
     and_then (get room ''areas'') (\<lambda>areas.
       let floorArea = or_else (oget areas ''floor_area'') (Num (Fin 0));
           paintableArea = or_else (oget areas ''paintable_area'') (Num (Fin 0));
           paintLiters = or_else (oget (js_prop room ''paint'') ''liters'') (Num (Fin 0));
           cost = or_else (or_else (js_prop room ''total_cost'') (js_prop room ''cost''))
                          (Num (Fin 0));
           dimensions = js_prop room ''dimensions''
       in
       and_then (interp (or_else (oget dimensions ''length'') (Str ''?''))) (\<lambda>c2.
       and_then (interp (or_else (oget dimensions ''width'') (Str ''?''))) (\<lambda>c3.
       and_then (interp (js_prop room ''name'')) (\<lambda>c1.
       and_then (toFixed floorArea 1) (\<lambda>c4.
       and_then (toFixed paintableArea 1) (\<lambda>c5.
       and_then (interp (js_prop room ''num_doors'')) (\<lambda>c6.
       and_then (interp (js_prop room ''num_windows'')) (\<lambda>c7.
       and_then (toFixed paintLiters 2) (\<lambda>c8.
       and_then (toLocaleString cost) (\<lambda>c9.
         Inr \<lparr>row_name = c1, row_length = c2, row_width = c3, row_floor_area = c4,
              row_wall_area = c5, row_doors = c6, row_windows = c7, row_paint = c8,
              row_cost = c9\<rparr>))))))))))"

text \<open>
  The table is built when \<^verbatim>\<open>rooms.length > 0\<close>; only an array has the method
  \<^verbatim>\<open>forEach\<close>.
\<close>

definition floorplan_table :: "(jsval \<Rightarrow> jsnum) \<Rightarrow> jsval \<Rightarrow> error + fp_row list option" where
  "floorplan_table coerce rooms =
     and_then (gt0 coerce (js_prop rooms ''length'')) (\<lambda>nonempty.
       if nonempty
       then (case rooms of
               Arr xs \<Rightarrow> and_then (collect (map floorplan_row xs)) (\<lambda>rows. Inr (Some rows))
             | _ \<Rightarrow> Inl TypeError)
       else Inr None)"

record fp_summary =
  rooms_found :: cell
  dimensions_found :: cell
  text_regions :: cell
  room_table :: "fp_row list option"
  total_rooms_cell :: cell
  total_floor_area_cell :: cell
  total_paintable_area_cell :: cell
  total_paint_cell :: cell
  total_cost_cell :: cell

text \<open>
  What is written into the results content: the warning (\<^verbatim>\<open>No rooms with dimensions
  could be extracted. Please ensure the image contains clear dimension annotations\<close> and
  an example), or the extraction summary, the room table and the totals.
\<close>

datatype fp_content = NoRoomsWarning | Summary fp_summary

text \<open>
  \<^verbatim>\<open>displayFloorPlanResults\<close>. It returns at once when the page has no results
  content element (\<open>has_content\<close>). Otherwise the outcome is an exception, or the content
  written together with whether the results section was revealed (it is, after the
  summary, when the section exists: \<open>has_results\<close>).
\<close>

definition displayFloorPlanResults ::
  "(jsval \<Rightarrow> jsnum) \<Rightarrow> bool \<Rightarrow> bool \<Rightarrow> jsval \<Rightarrow> error + (fp_content \<times> bool) option" where
  "displayFloorPlanResults coerce has_content has_results data =
     (if \<not> has_content then Inr None
      else if nullish data then Inl TypeError
      else
        let rooms = or_else (js_prop data ''rooms'') (Arr []);
            total_rooms = or_else (js_prop data ''total_rooms'') (Num (Fin 0));
            total_floor_area = or_else (js_prop data ''total_floor_area'') (Num (Fin 0));
            total_paintable_area =
              or_else (js_prop data ''total_paintable_area'') (Num (Fin 0));
            total_paint_required_liters =
              or_else (or_else (js_prop data ''total_paint_required_liters'')
                               (js_prop data ''total_paint_required''))
                      (Num (Fin 0));
            total_cost = or_else (js_prop data ''total_cost'') (Num (Fin 0));
            ocr_metadata = or_else (js_prop data ''ocr_metadata'') (Obj [])
        in
        if \<not> truthy rooms \<or> js_prop rooms ''length'' = Num (Fin 0)
        then Inr (Some (NoRoomsWarning, False))
        else
          and_then (interp total_rooms) (\<lambda>c1.
          and_then (interp (or_else (js_prop ocr_metadata ''dimensions_found'') (Str ''N/A'')))
            (\<lambda>c2.
          and_then (interp (or_else (js_prop ocr_metadata ''text_regions'') (Str ''N/A'')))
            (\<lambda>c3.
          and_then (floorplan_table coerce rooms) (\<lambda>rows.
          and_then (interp total_rooms) (\<lambda>c4.
          and_then (toLocaleString total_floor_area) (\<lambda>c5.
          and_then (toLocaleString total_paintable_area) (\<lambda>c6.
          and_then (toFixed total_paint_required_liters 1) (\<lambda>c7.
          and_then (toLocaleString total_cost) (\<lambda>c8.
            Inr (Some (Summary
                   \<lparr>rooms_found = c1, dimensions_found = c2, text_regions = c3,
                    room_table = rows, total_rooms_cell = c4,
                    total_floor_area_cell = c5, total_paintable_area_cell = c6,
                    total_paint_cell = c7, total_cost_cell = c8\<rparr>,
                  has_results))))))))))))"

section \<open>Video estimation page: rendering a response\<close>

text \<open>
  \<^verbatim>\<open>ManualInputModal.show\<close>, called with the confidence score, the reason and the
  current estimates of \<^verbatim>\<open>data.manual_input_request\<close>, each with its default. It writes
  the reason and the rounded confidence into the modal, and the height of the estimate
  into the input when there is one.
\<close>

record modal_view =
  modal_message :: cell
  modal_confidence :: jsnum
  modal_prefill :: "cell option"

definition modal_show :: "(jsval \<Rightarrow> jsnum) \<Rightarrow> jsval \<Rightarrow> error + modal_view" where
  "modal_show coerce request =
     (let confidence = or_else (js_prop request ''confidence_score'') (Num (Fin 0));
          reason = or_else (js_prop request ''reason'')
                           (Str ''Low confidence in automated estimation'');
          currentEstimate = or_else (js_prop request ''current_estimates'') (Obj []);
          height = js_prop currentEstimate ''height''
      in
      and_then (interp reason) (\<lambda>message.
      and_then (to_number coerce confidence) (\<lambda>c.
      and_then (if truthy height
                then and_then (toFixed height 1) (\<lambda>x. Inr (Some x))
                else Inr None) (\<lambda>prefill.
        Inr \<lparr>modal_message = message,
             modal_confidence = math_round (num_mul c (Fin 100)),
             modal_prefill = prefill\<rparr>))))"

text \<open>
  The confidence: \<^verbatim>\<open>confidence.overall_confidence || confidence || 0\<close>, replaced by
  0.90 or 0.70 when \<^verbatim>\<open>isNaN\<close> holds of it or it is not of type number.
\<close>

definition vision_api_used :: "jsval \<Rightarrow> bool" where
  "vision_api_used data = truthy (oget (js_prop data ''vision_api_result'') ''used'')"

definition raw_confidence :: "jsval \<Rightarrow> jsval" where
  "raw_confidence data =
     (let confidence =
            or_else (or_else (js_prop data ''confidence'')
                             (js_prop data ''detection_confidence''))
                    (Obj [])
      in or_else (or_else (js_prop confidence ''overall_confidence'') confidence)
                 (Num (Fin 0)))"

definition overall_confidence :: "(jsval \<Rightarrow> jsnum) \<Rightarrow> jsval \<Rightarrow> error + jsnum" where
  "overall_confidence coerce data =
     (let overallConfidence = raw_confidence data
      in and_then (to_number coerce overallConfidence) (\<lambda>n.
           if n = NaN \<or> \<not> is_num overallConfidence
           then Inr (if vision_api_used data then Fin (90 / 100) else Fin (70 / 100))
           else Inr n))"

definition confidence_percent :: "jsnum \<Rightarrow> jsnum" where
  "confidence_percent overallConfidence = math_round (num_mul overallConfidence (Fin 100))"

text \<open>
  The confidence level, its colour and the expected error. The expected error is the
  text of a plus-minus sign, a number and a percent sign; the number is a constant, or
  the error percentage printed with one decimal.
\<close>

datatype expected = PlusMinus nat | PlusMinusFixed jsnum

record band =
  confidenceLevel :: string
  confidenceColor :: string
  expectedError :: expected

definition variance_band :: "jsnum \<Rightarrow> band" where
  "variance_band errorPct =
     (if num_le errorPct (Fin 5)
      then \<lparr>confidenceLevel = ''Excellent'', confidenceColor = ''#10b981'',
            expectedError = PlusMinusFixed errorPct\<rparr>
      else if num_le errorPct (Fin 8)
      then \<lparr>confidenceLevel = ''Good'', confidenceColor = ''#3b82f6'',
            expectedError = PlusMinusFixed errorPct\<rparr>
      else if num_le errorPct (Fin 15)
      then \<lparr>confidenceLevel = ''Medium'', confidenceColor = ''#eab308'',
            expectedError = PlusMinusFixed errorPct\<rparr>
      else \<lparr>confidenceLevel = ''Low'', confidenceColor = ''#ef4444'',
            expectedError = PlusMinusFixed errorPct\<rparr>)"

definition percent_band :: "jsnum \<Rightarrow> band" where
  "percent_band confidencePercent =
     (if num_ge confidencePercent (Fin 90)
      then \<lparr>confidenceLevel = ''Very High'', confidenceColor = ''#10b981'',
            expectedError = PlusMinus 5\<rparr>
      else if num_ge confidencePercent (Fin 75)
      then \<lparr>confidenceLevel = ''High'', confidenceColor = ''#3b82f6'',
            expectedError = PlusMinus 10\<rparr>
      else if num_ge confidencePercent (Fin 60)
      then \<lparr>confidenceLevel = ''Medium'', confidenceColor = ''#eab308'',
            expectedError = PlusMinus 15\<rparr>
      else if num_ge confidencePercent (Fin 40)
      then \<lparr>confidenceLevel = ''Low'', confidenceColor = ''#f97316'',
            expectedError = PlusMinus 20\<rparr>
      else \<lparr>confidenceLevel = ''Very Low'', confidenceColor = ''#ef4444'',
            expectedError = PlusMinus 30\<rparr>)"

text \<open>
  The error percentage of the variance data, \<^verbatim>\<open>(dimensions.variance || {}).error_percentage\<close>,
  and the choice between the two mappings: the variance mapping whenever the error
  percentage is not \<^verbatim>\<open>undefined\<close> (\<^verbatim>\<open>toFixed\<close> raises when it is not a number), the
  percentage mapping otherwise.
\<close>

definition error_percentage :: "jsval \<Rightarrow> jsval" where
  "error_percentage dimensions =
     js_prop (or_else (js_prop dimensions ''variance'') (Obj [])) ''error_percentage''"

definition confidence_band :: "jsval \<Rightarrow> jsnum \<Rightarrow> error + band" where
  "confidence_band dimensions confidencePercent =
     (let errorPct = error_percentage dimensions in
      if errorPct \<noteq> Undefined
      then (case errorPct of Num n \<Rightarrow> Inr (variance_band n) | _ \<Rightarrow> Inl TypeError)
      else Inr (percent_band confidencePercent))"

text \<open>
  The method name: underscores become spaces, and the first character of each word is
  put in upper case. Only a string has the method \<^verbatim>\<open>replace\<close>.
\<close>

definition is_word_char :: "char \<Rightarrow> bool" where
  "is_word_char c =
     (c \<in> set ''abcdefghijklmnopqrstuvwxyzABCDEFGHIJKLMNOPQRSTUVWXYZ0123456789_'')"

definition toUpperCase :: "char \<Rightarrow> char" where
  "toUpperCase c =
     (case map_of (zip ''abcdefghijklmnopqrstuvwxyz'' ''ABCDEFGHIJKLMNOPQRSTUVWXYZ'') c of
        Some u \<Rightarrow> u | None \<Rightarrow> c)"

fun capitalise :: "bool \<Rightarrow> string \<Rightarrow> string" where
  "capitalise inside [] = []"
| "capitalise inside (c # cs) =
     (if is_word_char c
      then (if inside then c else toUpperCase c) # capitalise True cs
      else c # capitalise False cs)"

definition method_display :: "jsval \<Rightarrow> jsval \<Rightarrow> error + string" where
  "method_display data dimensions =
     (case or_else (or_else (js_prop dimensions ''method'') (js_prop data ''estimation_mode''))
                   (Str ''unknown'') of
        Str s \<Rightarrow> Inr (capitalise False (map (\<lambda>c. if c = CHR ''_'' then CHR '' '' else c) s))
      | _ \<Rightarrow> Inl TypeError)"

text \<open>The three kinds of value in the markup.\<close>

definition typed_cell :: "jsval \<Rightarrow> error + cell" where
  "typed_cell v = (if is_num v then toFixed v 1 else interp v)"

definition positive_cell ::
  "(jsval \<Rightarrow> jsnum) \<Rightarrow> jsval \<Rightarrow> nat \<Rightarrow> string \<Rightarrow> error + cell" where
  "positive_cell coerce v d alt =
     and_then (gt0 coerce v) (\<lambda>positive. if positive then toFixed v d else Inr (Text alt))"

definition objects_cell :: "jsval \<Rightarrow> jsval \<Rightarrow> jsval \<Rightarrow> error + cell" where
  "objects_cell totalDetections doorsDetected windowsDetected =
     (if truthy totalDetections then interp totalDetections
      else if convertible doorsDetected \<and> convertible windowsDetected
      then Inr (InterpPlus doorsDetected windowsDetected)
      else Inl TypeError)"

text \<open>
  The dimensions object of the video page:
  \<^verbatim>\<open>data.dimensions || data.room_dimensions || data.dimension_analysis?.dimensions || {}\<close>.
\<close>

definition video_dimensions :: "jsval \<Rightarrow> jsval" where
  "video_dimensions data =
     or_else
       (or_else
          (or_else (js_prop data ''dimensions'') (js_prop data ''room_dimensions''))
          (oget (js_prop data ''dimension_analysis'') ''dimensions''))
       (Obj [])"

record video_result =
  v_length :: jsval
  v_width :: jsval
  v_height :: jsval
  totalArea :: jsval
  paintNeeded :: jsval
  totalCost :: jsval
  overallConfidence :: jsnum
  confidencePercent :: jsnum
  confidence_shown :: band
  methodDisplay :: string
  v_length_cell :: cell
  v_width_cell :: cell
  v_height_cell :: cell
  doors_cell :: cell
  windows_cell :: cell
  total_objects_cell :: cell
  area_cell :: cell
  paint_needed_cell :: cell
  frames_cell :: cell
  v_cost_cell :: cell
  modal_shown :: "modal_view option"

text \<open>
  \<^verbatim>\<open>displayResults\<close> of the video page. \<open>has_modal\<close> tells whether the page has set
  \<^verbatim>\<open>window.manualModal\<close>. The three confidence values the function computes next to the
  overall one are not used by the markup and are left out.
\<close>

definition video_displayResults ::
  "(jsval \<Rightarrow> jsnum) \<Rightarrow> bool \<Rightarrow> bool \<Rightarrow> jsval \<Rightarrow> error + video_result option" where
  "video_displayResults coerce has_container has_modal data =
     (if \<not> has_container then Inr None
      else if nullish data then Inl TypeError
      else
        let request = js_prop data ''manual_input_request'';
            dimensions = video_dimensions data;
            length1 = or_else (js_prop dimensions ''length'') (Str ''Auto'');
            width1 = or_else (js_prop dimensions ''width'') (Str ''Auto'');
            height1 = or_else (js_prop dimensions ''height'') (Num (Fin 10));
            area =
              or_else
                (or_else
                   (or_else (oget (js_prop data ''area_calculation'') ''paintable_area'')
                            (js_prop data ''total_paintable_area''))
                   (js_prop data ''total_area''))
                (Num (Fin 0));
            paint =
              or_else
                (or_else
                   (or_else
                      (oget (oget (js_prop data ''product_breakdown'') ''paint'') ''quantity'')
                      (js_prop data ''total_paint_required_liters''))
                   (js_prop data ''total_paint_liters''))
                (Num (Fin 0));
            framesAnalyzed =
              or_else
                (or_else
                   (or_else (oget (js_prop data ''video_analysis'') ''frames_analyzed'')
                            (js_prop data ''frame_count''))
                   (oget (js_prop data ''metadata'') ''frame_count''))
                (Num (Fin 0));
            cost =
              or_else
                (or_else (oget (js_prop data ''cost_breakdown'') ''total_cost'')
                         (js_prop data ''total_cost''))
                (Num (Fin 0));
            detectionResults =
              or_else (or_else (js_prop data ''detection_results'')
                               (js_prop data ''detections_summary''))
                      (Obj []);
            doorsDetected =
              or_else
                (or_else
                   (or_else (js_prop detectionResults ''detected_doors'')
                            (js_prop detectionResults ''unique_doors''))
                   (oget (js_prop data ''aggregated_counts'') ''doors''))
                (Num (Fin 0));
            windowsDetected =
              or_else
                (or_else
                   (or_else (js_prop detectionResults ''detected_windows'')
                            (js_prop detectionResults ''unique_windows''))
                   (oget (js_prop data ''aggregated_counts'') ''windows''))
                (Num (Fin 0));
            totalDetections = or_else (js_prop detectionResults ''total_detections'') (Num (Fin 0))
        in
        and_then (if truthy (oget request ''needs_manual_input'') \<and> has_modal
                  then and_then (modal_show coerce request) (\<lambda>m. Inr (Some m))
                  else Inr None) (\<lambda>modal.
        and_then (overall_confidence coerce data) (\<lambda>oc.
        and_then (confidence_band dimensions (confidence_percent oc)) (\<lambda>shown.
        and_then (method_display data dimensions) (\<lambda>method.
        and_then (typed_cell length1) (\<lambda>c1.
        and_then (typed_cell width1) (\<lambda>c2.
        and_then (typed_cell height1) (\<lambda>c3.
        and_then (interp doorsDetected) (\<lambda>c4.
        and_then (interp windowsDetected) (\<lambda>c5.
        and_then (objects_cell totalDetections doorsDetected windowsDetected) (\<lambda>c6.
        and_then (positive_cell coerce area 1 ''N/A'') (\<lambda>c7.
        and_then (positive_cell coerce paint 2 ''N/A'') (\<lambda>c8.
        and_then (interp (or_else framesAnalyzed (Str ''-''))) (\<lambda>c9.
        and_then (positive_cell coerce cost 0 ''0'') (\<lambda>c10.
          Inr (Some
            \<lparr>v_length = length1, v_width = width1, v_height = height1,
             totalArea = area, paintNeeded = paint, totalCost = cost,
             overallConfidence = oc, confidencePercent = confidence_percent oc,
             confidence_shown = shown, methodDisplay = method,
             v_length_cell = c1, v_width_cell = c2, v_height_cell = c3,
             doors_cell = c4, windows_cell = c5, total_objects_cell = c6,
             area_cell = c7, paint_needed_cell = c8, frames_cell = c9,
             v_cost_cell = c10, modal_shown = modal\<rparr>))))))))))))))))"

section \<open>Example responses\<close>

text \<open>
  A conversion of strings to numbers for the examples: it knows the one numeric string
  they contain.
\<close>

definition example_coerce :: "jsval \<Rightarrow> jsnum" where
  "example_coerce v = (if v = Str ''1500'' then Fin 1500 else NaN)"

definition body_area_400 :: jsval where
  "body_area_400 = Obj [(''total_paintable_area'', Num (Fin 400))]"

definition body_no_rooms :: jsval where
  "body_no_rooms = Obj [(''rooms'', Arr []), (''total_cost'', Num (Fin 5000))]"

definition body_confidence_92 :: jsval where
  "body_confidence_92 = Obj [(''confidence'', Obj [(''overall_confidence'', Num (Fin (92 / 100)))])]"

definition body_confidence_text :: jsval where
  "body_confidence_text = Obj [(''confidence'', Str ''high'')]"

definition body_confidence_infinite :: jsval where
  "body_confidence_infinite = Obj [(''confidence'', Num PosInf)]"

definition body_variance_20 :: jsval where
  "body_variance_20 =
     Obj [(''confidence'', Obj [(''overall_confidence'', Num (Fin (92 / 100)))]),
          (''dimensions'', Obj [(''variance'', Obj [(''error_percentage'', Num (Fin 20))])])]"

section \<open>Responses of the expected shape\<close>

text \<open>
  The shape the renderers are written for: a number that is expected is finite, or its
  property is missing or \<^verbatim>\<open>null\<close>; an object that is expected is an object, or missing
  or \<^verbatim>\<open>null\<close>.
\<close>

definition finite_value :: "jsval \<Rightarrow> bool" where
  "finite_value v = (case v of Num (Fin _) \<Rightarrow> True | _ \<Rightarrow> False)"

definition finite_or_missing :: "jsval \<Rightarrow> bool" where
  "finite_or_missing v = (nullish v \<or> finite_value v)"

definition text_or_missing :: "jsval \<Rightarrow> bool" where
  "text_or_missing v = (case v of Undefined \<Rightarrow> True | Null \<Rightarrow> True | Str _ \<Rightarrow> True | _ \<Rightarrow> False)"

definition is_obj :: "jsval \<Rightarrow> bool" where
  "is_obj v = (case v of Obj _ \<Rightarrow> True | _ \<Rightarrow> False)"

definition object_or_missing :: "(jsval \<Rightarrow> bool) \<Rightarrow> jsval \<Rightarrow> bool" where
  "object_or_missing P v = (nullish v \<or> (is_obj v \<and> P v))"





















section \<open>Properties of the validator\<close>

lemma num_le_Fin0: "num_le n (Fin 0) = (case n of Fin x \<Rightarrow> x \<le> 0 | NegInf \<Rightarrow> True | _ \<Rightarrow> False)"
  by (cases n) simp_all

lemma num_gt_Fin: "num_gt n (Fin b) = (case n of Fin x \<Rightarrow> b < x | PosInf \<Rightarrow> True | _ \<Rightarrow> False)"
  by (cases n) (simp_all add: num_gt_def)

text \<open>
  On inputs none of whose dimensions is NaN the validator accepts exactly the inputs the
  specification calls valid.
\<close>

lemma validateManualForm_no_NaN:
  assumes "room_length r \<noteq> NaN" "room_width r \<noteq> NaN" "room_height r \<noteq> NaN"
  shows "fst (validateManualForm r) = manual_input_ok r"
  using assms
  by (cases "room_length r"; cases "room_width r"; cases "room_height r")
     (auto simp: validateManualForm_def manual_input_ok_def dimension_ok_def
                 num_le_Fin0 num_gt_Fin)

lemma validateManualForm_valid:
  "manual_input_ok r \<Longrightarrow> validateManualForm r = (True, None)"
  by (cases "room_length r"; cases "room_width r"; cases "room_height r")
     (auto simp: validateManualForm_def manual_input_ok_def dimension_ok_def
                 num_le_Fin0 num_gt_Fin)

text \<open>
  C6. The claim: the validator returns ok=true if and only if length, width and height
  are present, finite, greater than 0 and within their bounds. An empty length field
  reaches the validator as NaN (\<^verbatim>\<open>parseFloat('')\<close>); both of its tests are false on NaN,
  so it accepts the input and shows no message, although the length is neither present
  nor finite nor greater than 0.
\<close>

theorem validateManualForm_accepts_NaN:
  "validateManualForm \<lparr>room_length = NaN, room_width = Fin 10, room_height = Fin 10\<rparr>
     = (True, None)
   \<and> \<not> manual_input_ok \<lparr>room_length = NaN, room_width = Fin 10, room_height = Fin 10\<rparr>"
  by (simp add: validateManualForm_def manual_input_ok_def dimension_ok_def num_gt_def)

section \<open>Properties of the selection\<close>

lemma is_image_img: "is_image (img n)"
  by (simp add: img_def is_image_def startsWith_def)

lemma length_splice1: "length (splice1 i xs) \<le> length xs"
  by (simp add: splice1_def Let_def)

lemma fire_keeps_bound:
  "length (uploadedImages s) \<le> 4 \<Longrightarrow> length (uploadedImages (fire e s)) \<le> 4"
  by (cases e)
     (auto simp: fire_def addMultipleImages_def removeMultiImage_def displaySingleImage_def
        single_onload_def removeSingleImage_def handleSingleSubmit_def handleMultiSubmit_def
        single_settled_def multi_settled_def showToast_def showLoading_def Let_def
        intro: order_trans [OF length_splice1])

lemma reachable_bound: "reachable s \<Longrightarrow> length (uploadedImages s) \<le> 4"
  by (induction rule: reachable.induct) (simp_all add: initial_page_def fire_keeps_bound)

lemma add_rejected:
  "4 < length (uploadedImages s) + length (filter is_image files) \<Longrightarrow>
   uploadedImages (addMultipleImages files s) = uploadedImages s"
  by (simp add: addMultipleImages_def showToast_def Let_def)

lemma three_walls_images: "uploadedImages three_walls = [img ''a'', img ''b'', img ''c'']"
  by (simp add: three_walls_def fire_def addMultipleImages_def initial_page_def is_image_img)

text \<open>
  C9. In every state the image estimation page reaches, \<^verbatim>\<open>uploadedImages\<close> holds at
  most 4 entries, and every event of the page (adding images, removing one by index,
  selecting a single image and its load, removing the single image, and the others)
  keeps it so; an add whose image files would bring the list above 4 leaves the list as
  it was, none of them added.
\<close>

theorem uploadedImages_never_exceeds_4:
  assumes "reachable s"
  shows "length (uploadedImages s) \<le> 4
       \<and> (\<forall>e. length (uploadedImages (fire e s)) \<le> 4)
       \<and> (\<forall>files. 4 < length (uploadedImages s) + length (filter is_image files)
             \<longrightarrow> uploadedImages (addMultipleImages files s) = uploadedImages s)"
  using assms by (simp add: reachable_bound fire_keeps_bound add_rejected)

theorem uploadedImages_never_exceeds_4_witness:
  "reachable three_walls \<and> length (uploadedImages three_walls) = 3
   \<and> uploadedImages (addMultipleImages [img ''d'', img ''e''] three_walls)
       = uploadedImages three_walls"
proof -
  have r: "reachable three_walls"
    unfolding three_walls_def by (rule reachable.step [OF reachable.init])
  have "4 < length (uploadedImages three_walls)
              + length (filter is_image [img ''d'', img ''e''])"
    by (simp add: three_walls_images is_image_img)
  with uploadedImages_never_exceeds_4 [OF r] show ?thesis
    using r by (simp add: three_walls_images)
qed

section \<open>Properties of the submit handlers\<close>

lemma handleMultiSubmit_rejects:
  "length (uploadedImages s) < 2 \<Longrightarrow>
   handleMultiSubmit s
     = showToast ''warning'' ''Not Enough Images'' ''Please upload at least 2 wall images'' s"
  by (simp add: handleMultiSubmit_def)

lemma posts_showToast: "posts (showToast a b c s) = posts s"
  by (simp add: showToast_def)

lemma fresh_selection:
  "uploadedImages (addMultipleImages files initial_page)
     = (if length (filter is_image files) \<le> 4 then filter is_image files else [])"
  by (auto simp: addMultipleImages_def initial_page_def showToast_def Let_def)

lemma posts_addMultipleImages: "posts (addMultipleImages files s) = posts s"
  by (simp add: addMultipleImages_def showToast_def Let_def)

text \<open>
  C7. Whenever the multi-image selection of a reachable state of the page holds fewer
  than 2 or more than 4 files, \<^verbatim>\<open>handleMultiSubmit\<close> only shows its warning and sends
  no request. The lower bound is the handler's own test; a selection above 4 does not
  arise, because \<^verbatim>\<open>addMultipleImages\<close> refuses it: picking a batch with fewer than 2 or
  more than 4 image files on a fresh page and submitting sends nothing.
\<close>

theorem multi_outside_bounds_sends_nothing:
  "(reachable s \<and> (length (uploadedImages s) < 2 \<or> 4 < length (uploadedImages s))
      \<longrightarrow> handleMultiSubmit s
            = showToast ''warning'' ''Not Enough Images''
                ''Please upload at least 2 wall images'' s
          \<and> posts (handleMultiSubmit s) = posts s)
   \<and> (length (filter is_image files) < 2 \<or> 4 < length (filter is_image files)
      \<longrightarrow> posts (run [AddMultiple files, SubmitMulti] initial_page) = [])"
proof (intro conjI impI)
  assume a: "reachable s \<and> (length (uploadedImages s) < 2 \<or> 4 < length (uploadedImages s))"
  with reachable_bound [of s] have lt: "length (uploadedImages s) < 2" by auto
  then show "handleMultiSubmit s
            = showToast ''warning'' ''Not Enough Images''
                ''Please upload at least 2 wall images'' s"
    by (rule handleMultiSubmit_rejects)
  then show "posts (handleMultiSubmit s) = posts s" by (simp add: posts_showToast)
next
  assume "length (filter is_image files) < 2 \<or> 4 < length (filter is_image files)"
  then have "length (uploadedImages (addMultipleImages files initial_page)) < 2"
    by (auto simp: fresh_selection)
  then have "posts (handleMultiSubmit (addMultipleImages files initial_page))
               = posts (addMultipleImages files initial_page)"
    by (simp add: handleMultiSubmit_rejects posts_showToast)
  then show "posts (run [AddMultiple files, SubmitMulti] initial_page) = []"
    by (simp add: fire_def posts_addMultipleImages initial_page_def)
qed

theorem multi_outside_bounds_sends_nothing_witness:
  "reachable one_wall
   \<and> length (uploadedImages one_wall) = 1
   \<and> posts (handleMultiSubmit one_wall) = []
   \<and> length (filter is_image five_files) = 5
   \<and> posts (run [AddMultiple five_files, SubmitMulti] initial_page) = []"
proof -
  have r: "reachable one_wall"
    unfolding one_wall_def by (rule reachable.step [OF reachable.init])
  have u: "uploadedImages one_wall = [img ''a'']"
    by (simp add: one_wall_def fire_def addMultipleImages_def initial_page_def is_image_img)
  have p: "posts one_wall = []"
    by (simp add: one_wall_def fire_def posts_addMultipleImages initial_page_def)
  have f: "length (filter is_image five_files) = 5"
    by (simp add: five_files_def is_image_img)
  from multi_outside_bounds_sends_nothing [of one_wall five_files] r u p f show ?thesis
    by (simp add: posts_showToast)
qed

section \<open>Properties of the payload builders\<close>

lemma length_roomData: "length (roomData s) = length (uploadedImages s)"
  by (simp add: roomData_def)

lemma nth_roomData:
  "i < length (uploadedImages s) \<Longrightarrow>
   roomData s ! i = \<lparr>room_type = multi_room_type s,
                     room_name = ''Wall '' @ show_nat (i + 1),
                     paint_type = multi_paint_type s,
                     num_coats = Fin 2, include_ceiling = False\<rparr>"
  by (simp add: roomData_def)

lemma length_renumber: "length (renumber ws) = length ws"
  by (simp add: renumber_def)

lemma name_renumber:
  "i < length ws \<Longrightarrow> wall_name (renumber ws ! i) = ''Wall '' @ show_nat (i + 1)"
  by (simp add: renumber_def)

lemma file_renumber:
  "i < length ws \<Longrightarrow> wall_file (renumber ws ! i) = wall_file (ws ! i)"
  by (simp add: renumber_def)

lemma walls_named:
  "walls_reachable ws \<Longrightarrow> i < length ws \<Longrightarrow> wall_name (ws ! i) = ''Wall '' @ show_nat (i + 1)"
proof (induction arbitrary: i rule: walls_reachable.induct)
  case walls_empty
  then show ?case by simp
next
  case (walls_loaded ws f)
  then show ?case
    by (cases "i < length ws") (auto simp: wall_onload_def nth_append less_Suc_eq)
next
  case (walls_removed ws j)
  then show ?case by (simp add: removeWall_def length_renumber name_renumber)
qed

lemma nth_wallRoomData:
  "i < length ws \<Longrightarrow>
   wallRoomData rt pt coats ws ! i
     = \<lparr>room_type = rt, room_name = wall_name (ws ! i), paint_type = pt,
        num_coats = coats, include_ceiling = False\<rparr>"
  by (simp add: wallRoomData_def)

text \<open>
  C5. For a multi-image selection of n files the payload builder yields n descriptors, in
  the order of the selection; descriptor i carries the room name "Wall i+1", the shared
  room type and paint type, the shared number of coats, and \<^verbatim>\<open>include_ceiling\<close> false
  (for the first entry as for every other). Once at least 2 files are selected the
  handler sends the files followed by this array under \<^verbatim>\<open>room_data\<close>. The same holds
  of the builder of the manual estimation page, whose wall names are kept numbered by
  position as walls are loaded and removed.
\<close>

theorem room_data_one_descriptor_per_file:
  "length (roomData s) = length (uploadedImages s)
   \<and> (\<forall>i < length (uploadedImages s).
         roomData s ! i = \<lparr>room_type = multi_room_type s,
                            room_name = ''Wall '' @ show_nat (i + 1),
                            paint_type = multi_paint_type s,
                            num_coats = Fin 2, include_ceiling = False\<rparr>)
   \<and> (2 \<le> length (uploadedImages s) \<longrightarrow>
         req_body (last (posts (handleMultiSubmit s)))
           = map (\<lambda>f. (''images'', FileV f)) (uploadedImages s)
             @ [(''room_data'', JsonV (roomData s))])
   \<and> length (wallRoomData rt pt coats ws) = length ws
   \<and> (walls_reachable ws \<longrightarrow>
        (\<forall>i < length ws.
           wallRoomData rt pt coats ws ! i
             = \<lparr>room_type = rt, room_name = ''Wall '' @ show_nat (i + 1),
                paint_type = pt, num_coats = coats, include_ceiling = False\<rparr>))
   \<and> (2 \<le> length ws \<longrightarrow>
         handleMultiWallEstimation rt pt coats ws
           = Inr \<lparr>req_path = ''/api/v1/estimate/cv/multi-room'',
                  req_body = map (\<lambda>wl. (''images'', FileV (wall_file wl))) ws
                             @ [(''room_data'', JsonV (wallRoomData rt pt coats ws))]\<rparr>)"
  by (simp add: length_roomData nth_roomData nth_wallRoomData walls_named
        handleMultiSubmit_def showLoading_def Let_def handleMultiWallEstimation_def
        wallRoomData_def)

lemma show_nat_2: "show_nat (Suc (Suc 0)) = ''2''" by (simp add: show_nat.simps digit_def)

theorem room_data_one_descriptor_per_file_witness:
  "length (roomData two_walls) = 2
   \<and> room_name (roomData two_walls ! 1) = ''Wall 2''
   \<and> include_ceiling (roomData two_walls ! 0) = False
   \<and> map fst (req_body (last (posts (handleMultiSubmit two_walls))))
       = [''images'', ''images'', ''room_data'']
   \<and> walls_reachable two_loaded
   \<and> room_name (wallRoomData ''bedroom'' ''interior'' (Fin 2) two_loaded ! 1) = ''Wall 2''"
proof -
  have u: "uploadedImages two_walls = [img ''a'', img ''b'']"
    by (simp add: two_walls_def fire_def addMultipleImages_def initial_page_def is_image_img)
  have w: "walls_reachable two_loaded"
    unfolding two_loaded_def by (intro walls_reachable.intros)
  have l: "length two_loaded = 2" by (simp add: two_loaded_def wall_onload_def)
  note t = room_data_one_descriptor_per_file
             [of two_walls "''bedroom''" "''interior''" "Fin 2" two_loaded]
  from t have len: "length (roomData two_walls) = length (uploadedImages two_walls)"
    by (rule conjunct1)
  from t have
    "\<forall>i < length (uploadedImages two_walls).
         roomData two_walls ! i = \<lparr>room_type = multi_room_type two_walls,
                            room_name = ''Wall '' @ show_nat (i + 1),
                            paint_type = multi_paint_type two_walls,
                            num_coats = Fin 2, include_ceiling = False\<rparr>"
    by blast
  then have n: "room_name (roomData two_walls ! 1) = ''Wall '' @ show_nat (Suc (Suc 0))"
               "include_ceiling (roomData two_walls ! 0) = False"
    using u by simp_all
  from t have b: "req_body (last (posts (handleMultiSubmit two_walls)))
           = map (\<lambda>f. (''images'', FileV f)) (uploadedImages two_walls)
             @ [(''room_data'', JsonV (roomData two_walls))]"
    using u by simp
  from t w have
    "\<forall>i < length two_loaded.
           wallRoomData ''bedroom'' ''interior'' (Fin 2) two_loaded ! i
             = \<lparr>room_type = ''bedroom'', room_name = ''Wall '' @ show_nat (i + 1),
                paint_type = ''interior'', num_coats = Fin 2, include_ceiling = False\<rparr>"
    by blast
  then have m: "room_name (wallRoomData ''bedroom'' ''interior'' (Fin 2) two_loaded ! 1)
                  = ''Wall '' @ show_nat (Suc (Suc 0))"
    using l by simp
  show ?thesis
    using len u w b n m by (simp add: show_nat_2)
qed

section \<open>Submitting twice\<close>




section \<open>Evaluating the renderers\<close>

lemma and_then_Inr_iff: "and_then m f = Inr y \<longleftrightarrow> (\<exists>x. m = Inr x \<and> f x = Inr y)"
  by (cases m) (simp_all add: and_then_def)

lemma and_then_Inr [simp]: "and_then (Inr x) f = f x"
  by (simp add: and_then_def)

lemma and_then_Inl [simp]: "and_then (Inl e) f = Inl e"
  by (simp add: and_then_def)

lemma digit_in_digits: "d < 10 \<Longrightarrow> digit d \<in> set ''0123456789''"
  unfolding digit_def by (rule nth_mem) simp

lemma show_nat_digits: "set (show_nat n) \<subseteq> set ''0123456789''"
proof (induction n rule: show_nat.induct)
  case (1 n)
  show ?case
  proof (cases "n < 10")
    case True
    then show ?thesis
      using digit_in_digits [of n] by (subst show_nat.simps) simp
  next
    case False
    have "digit (n mod 10) \<in> set ''0123456789''"
      by (rule digit_in_digits) simp
    with False 1 show ?thesis
      by (subst show_nat.simps) simp
  qed
qed

lemma index_of_key_not_numeric:
  assumes "\<not> set k \<subseteq> set ''0123456789''"
  shows "index_of_key k n = None"
proof -
  have "filter (\<lambda>i. show_nat i = k) [0 ..< n] = []"
    using assms show_nat_digits by (auto simp: filter_empty_conv)
  then show ?thesis by (simp add: index_of_key_def)
qed

lemmas js_eval =
  js_prop_def or_else_def oget_def nullish_def and_then_def to_number_def gt0_def
  num_gt_def num_ge_def toFixed_def interp_def is_num_def Let_def

lemmas video_eval =
  video_displayResults_def video_dimensions_def overall_confidence_def raw_confidence_def
  vision_api_used_def confidence_percent_def math_round_def confidence_band_def
  error_percentage_def percent_band_def variance_band_def method_display_def typed_cell_def
  positive_cell_def objects_cell_def is_word_char_def toUpperCase_def inf_of_def

section \<open>Properties of the floor plan renderer\<close>

lemma length_of_empty_array: "js_prop (Arr []) ''length'' = Num (Fin 0)"
  by (simp add: js_prop_def)

lemma no_rooms_test:
  assumes "r = Undefined \<or> r = Null \<or> r = Arr []"
  shows "\<not> truthy (or_else r (Arr [])) \<or> js_prop (or_else r (Arr [])) ''length'' = Num (Fin 0)"
  using assms by (auto simp: or_else_def length_of_empty_array)

text \<open>
  C10. When the data of a floor-plan response has no \<^verbatim>\<open>rooms\<close> property, or its
  \<^verbatim>\<open>rooms\<close> is \<^verbatim>\<open>null\<close> or the empty array, the renderer writes the warning and
  nothing else, and returns before it builds the room table or the totals and before it
  reveals the results section.
\<close>

theorem floorplan_without_rooms_warns_only:
  assumes "\<not> nullish data"
    and "js_prop data ''rooms'' = Undefined \<or> js_prop data ''rooms'' = Null
         \<or> js_prop data ''rooms'' = Arr []"
  shows "displayFloorPlanResults coerce True has_results data
           = Inr (Some (NoRoomsWarning, False))"
proof -
  from assms(2) have
    "\<not> truthy (or_else (js_prop data ''rooms'') (Arr []))
     \<or> js_prop (or_else (js_prop data ''rooms'') (Arr [])) ''length'' = Num (Fin 0)"
    by (rule no_rooms_test)
  with assms(1) show ?thesis
    unfolding displayFloorPlanResults_def Let_def by (simp only: if_True if_False not_True_eq_False simp_thms)
qed

theorem floorplan_without_rooms_warns_only_witness:
  "\<not> nullish body_no_rooms \<and> js_prop body_no_rooms ''rooms'' = Arr []
   \<and> displayFloorPlanResults example_coerce True True body_no_rooms
       = Inr (Some (NoRoomsWarning, False))
   \<and> displayFloorPlanResults example_coerce True True (Obj [])
       = Inr (Some (NoRoomsWarning, False))"
proof -
  have a: "\<not> nullish body_no_rooms" "js_prop body_no_rooms ''rooms'' = Arr []"
    by (simp_all add: body_no_rooms_def nullish_def js_prop_def)
  have b: "\<not> nullish (Obj [])" "js_prop (Obj []) ''rooms'' = Undefined"
    by (simp_all add: nullish_def js_prop_def)
  show ?thesis
    using a floorplan_without_rooms_warns_only [of body_no_rooms example_coerce True]
      floorplan_without_rooms_warns_only [of "Obj []" example_coerce True] b
    by simp
qed



section \<open>Properties of the area fallback\<close>

text \<open>
  C2. For response data whose \<^verbatim>\<open>total_paintable_area\<close> is 400 and which has neither
  \<^verbatim>\<open>dimensions\<close> nor \<^verbatim>\<open>rooms\<close>, the dimensions read are empty, so length and width
  are 0 and the estimate is used: room count 1, wall area 400, perimeter 80, side 40, and
  the dimensions become length 40, width 40, height 10.
\<close>

theorem area_fallback_400:
  assumes "js_prop data ''total_paintable_area'' = Num (Fin 400)"
    and "js_prop data ''dimensions'' = Undefined"
    and "js_prop data ''rooms'' = Undefined"
  shows "response_dimensions coerce data = Inr (Obj [])
       \<and> area_estimate coerce data (paintableArea_of data)
           = Inr \<lparr>roomCount = Num (Fin 1), wallArea = Fin 400, perimeter = Fin 80,
                  estimatedSide = Fin 40\<rparr>
       \<and> resolved_dimensions coerce data = Inr (Num (Fin 40), Num (Fin 40), Num (Fin 10))"
  using assms
  by (simp add: response_dimensions_def area_estimate_def paintableArea_of_def
        resolved_dimensions_def or_else_def and_then_def to_number_def estimatedHeight_def
        js_prop_def Let_def)

theorem area_fallback_400_witness:
  "js_prop body_area_400 ''total_paintable_area'' = Num (Fin 400)
   \<and> js_prop body_area_400 ''dimensions'' = Undefined
   \<and> js_prop body_area_400 ''rooms'' = Undefined
   \<and> resolved_dimensions example_coerce body_area_400
       = Inr (Num (Fin 40), Num (Fin 40), Num (Fin 10))
   \<and> (case displayResults example_coerce True body_area_400 of
         Inr (Some r) \<Rightarrow>
           dims_length r = Num (Fin 40) \<and> dims_width r = Num (Fin 40)
           \<and> dims_height r = Num (Fin 10)
       | _ \<Rightarrow> False)"
proof -
  have a: "js_prop body_area_400 ''total_paintable_area'' = Num (Fin 400)"
          "js_prop body_area_400 ''dimensions'' = Undefined"
          "js_prop body_area_400 ''rooms'' = Undefined"
          "js_prop body_area_400 ''data'' = Undefined"
          "js_prop body_area_400 ''total_paint_required'' = Undefined"
          "js_prop body_area_400 ''product_breakdown'' = Undefined"
          "js_prop body_area_400 ''total_cost'' = Undefined"
          "js_prop body_area_400 ''cost_breakdown'' = Undefined"
          "js_prop body_area_400 ''area_calculation'' = Undefined"
    by (simp_all add: body_area_400_def js_prop_def)
  have n: "\<not> nullish body_area_400" by (simp add: body_area_400_def nullish_def)
  note t = area_fallback_400 [OF a(1) a(2) a(3), of example_coerce]
  from t have r: "resolved_dimensions example_coerce body_area_400
                    = Inr (Num (Fin 40), Num (Fin 40), Num (Fin 10))" by simp
  show ?thesis
    using a n r
    by (simp add: displayResults_def or_else_def and_then_def paintableArea_of_def
          toFixed_def dimension_cell_def gt0_def to_number_def num_gt_def oget_def nullish_def)
qed


section \<open>Properties of the confidence display\<close>

lemma video_result_fields:
  assumes "video_displayResults coerce hc hm data = Inr (Some r)"
  shows "overall_confidence coerce data = Inr (overallConfidence r)"
    and "confidencePercent r = confidence_percent (overallConfidence r)"
    and "confidence_band (video_dimensions data) (confidencePercent r)
           = Inr (confidence_shown r)"
  using assms
  unfolding video_displayResults_def Let_def
  by (auto simp: and_then_Inr_iff split: if_splits)

lemma raw_confidence_92:
  assumes "js_prop data ''confidence'' = Obj kvs"
    and "map_of kvs ''overall_confidence'' = Some (Num (Fin (92 / 100)))"
  shows "raw_confidence data = Num (Fin (92 / 100))"
  using assms by (simp add: raw_confidence_def or_else_def js_prop_def)

lemma confidence_percent_Fin:
  "confidence_percent (Fin c) = Fin (of_int \<lfloor>c * 100 + 1 / 2\<rfloor>)"
  by (simp add: confidence_percent_def math_round_def)

lemma confidence_percent_values:
  "confidence_percent (Fin (92 / 100)) = Fin 92"
  "confidence_percent (Fin (70 / 100)) = Fin 70"
  "confidence_percent (Fin (90 / 100)) = Fin 90"
  by (simp_all add: confidence_percent_def math_round_def)

lemma overall_confidence_number:
  "raw_confidence data = Num n \<Longrightarrow> n \<noteq> NaN \<Longrightarrow> overall_confidence coerce data = Inr n"
  by (simp add: overall_confidence_def to_number_def is_num_def)

lemma to_number_convertible:
  "convertible v \<Longrightarrow> \<exists>n. to_number coerce v = Inr n"
  by (cases v) (simp_all add: to_number_def)

lemma overall_confidence_default:
  assumes "raw_confidence data = Num NaN \<or> \<not> is_num (raw_confidence data)"
    and "convertible (raw_confidence data)"
  shows "overall_confidence coerce data
           = Inr (if vision_api_used data then Fin (90 / 100) else Fin (70 / 100))"
proof -
  obtain n where n: "to_number coerce (raw_confidence data) = Inr n"
    using to_number_convertible [OF assms(2)] by blast
  have "n = NaN \<or> \<not> is_num (raw_confidence data)"
    using assms(1) n by (auto simp: to_number_def)
  with n show ?thesis
    by (auto simp: overall_confidence_def)
qed

lemma percent_band_Fin:
  "percent_band (Fin p) =
     (if 90 \<le> p then \<lparr>confidenceLevel = ''Very High'', confidenceColor = ''#10b981'',
                        expectedError = PlusMinus 5\<rparr>
      else if 75 \<le> p then \<lparr>confidenceLevel = ''High'', confidenceColor = ''#3b82f6'',
                             expectedError = PlusMinus 10\<rparr>
      else if 60 \<le> p then \<lparr>confidenceLevel = ''Medium'', confidenceColor = ''#eab308'',
                             expectedError = PlusMinus 15\<rparr>
      else if 40 \<le> p then \<lparr>confidenceLevel = ''Low'', confidenceColor = ''#f97316'',
                             expectedError = PlusMinus 20\<rparr>
      else \<lparr>confidenceLevel = ''Very Low'', confidenceColor = ''#ef4444'',
            expectedError = PlusMinus 30\<rparr>)"
  by (simp add: percent_band_def num_ge_def)



lemma confidence_band_absent:
  "error_percentage dimensions = Undefined \<Longrightarrow>
   confidence_band dimensions p = Inr (percent_band p)"
  by (simp add: confidence_band_def)

text \<open>
  C3, as stated: a confidence value that is not a finite number is replaced by the
  default, and a confidence of 0.92 is shown as level Very High. A body whose confidence
  is infinite (the JSON number \<^verbatim>\<open>1e999\<close> parses to it) keeps that value, and a body
  with a confidence of 0.92 and a variance error percentage of 20 is shown as level Low.
\<close>

theorem infinite_confidence_is_kept:
  "raw_confidence body_confidence_infinite = Num PosInf
   \<and> overall_confidence example_coerce body_confidence_infinite = Inr PosInf
   \<and> (case video_displayResults example_coerce True False body_confidence_infinite of
         Inr (Some r) \<Rightarrow>
           overallConfidence r = PosInf \<and> confidencePercent r = PosInf
           \<and> confidenceLevel (confidence_shown r) = ''Very High''
       | _ \<Rightarrow> False)
   \<and> (case video_displayResults example_coerce True False body_variance_20 of
         Inr (Some r) \<Rightarrow>
           overallConfidence r = Fin (92 / 100) \<and> confidencePercent r = Fin 92
           \<and> confidenceLevel (confidence_shown r) = ''Low''
       | _ \<Rightarrow> False)"
  by (simp add: body_confidence_infinite_def body_variance_20_def js_eval video_eval)

text \<open>
  C3, amended. A response whose \<^verbatim>\<open>confidence.overall_confidence\<close> is 0.92 has
  confidence 0.92 and percent 92, in the band Very High. A confidence value that is NaN
  or not of type number (and can be converted to a primitive) is replaced by 0.90 when
  the vision API flag is set and by 0.70 otherwise, which gives percent 70 and the band
  Medium; an infinite value is kept. The percent maps to Very High from 90, High from
  75, Medium from 60, Low from 40 and Very Low below, each with its colour and expected
  error, and this is the level shown whenever the response has no variance error
  percentage.
\<close>

theorem confidence_percent_and_bands:
  "(js_prop data ''confidence'' = Obj kvs
      \<and> map_of kvs ''overall_confidence'' = Some (Num (Fin (92 / 100)))
      \<longrightarrow> overall_confidence coerce data = Inr (Fin (92 / 100))
          \<and> confidence_percent (Fin (92 / 100)) = Fin 92
          \<and> confidenceLevel (percent_band (Fin 92)) = ''Very High'')
   \<and> ((raw_confidence data = Num NaN \<or> \<not> is_num (raw_confidence data))
        \<and> convertible (raw_confidence data)
      \<longrightarrow> overall_confidence coerce data
            = Inr (if vision_api_used data then Fin (90 / 100) else Fin (70 / 100)))
   \<and> confidence_percent (Fin (70 / 100)) = Fin 70
   \<and> confidenceLevel (percent_band (Fin 70)) = ''Medium''
   \<and> confidence_percent (Fin (90 / 100)) = Fin 90
   \<and> (raw_confidence data = Num PosInf \<longrightarrow> overall_confidence coerce data = Inr PosInf)
   \<and> percent_band (Fin p) =
       (if 90 \<le> p then \<lparr>confidenceLevel = ''Very High'', confidenceColor = ''#10b981'',
                          expectedError = PlusMinus 5\<rparr>
        else if 75 \<le> p then \<lparr>confidenceLevel = ''High'', confidenceColor = ''#3b82f6'',
                               expectedError = PlusMinus 10\<rparr>
        else if 60 \<le> p then \<lparr>confidenceLevel = ''Medium'', confidenceColor = ''#eab308'',
                               expectedError = PlusMinus 15\<rparr>
        else if 40 \<le> p then \<lparr>confidenceLevel = ''Low'', confidenceColor = ''#f97316'',
                               expectedError = PlusMinus 20\<rparr>
        else \<lparr>confidenceLevel = ''Very Low'', confidenceColor = ''#ef4444'',
              expectedError = PlusMinus 30\<rparr>)
   \<and> (video_displayResults coerce hc hm data = Inr (Some r)
      \<longrightarrow> overall_confidence coerce data = Inr (overallConfidence r)
          \<and> confidencePercent r = confidence_percent (overallConfidence r)
          \<and> (error_percentage (video_dimensions data) = Undefined
               \<longrightarrow> confidence_shown r = percent_band (confidencePercent r)))"
proof (intro conjI impI)
  assume a: "js_prop data ''confidence'' = Obj kvs
      \<and> map_of kvs ''overall_confidence'' = Some (Num (Fin (92 / 100)))"
  then have "raw_confidence data = Num (Fin (92 / 100))"
    using raw_confidence_92 by blast
  then show "overall_confidence coerce data = Inr (Fin (92 / 100))"
    by (simp add: overall_confidence_number)
next
  assume "(raw_confidence data = Num NaN \<or> \<not> is_num (raw_confidence data))
          \<and> convertible (raw_confidence data)"
  then show "overall_confidence coerce data
            = Inr (if vision_api_used data then Fin (90 / 100) else Fin (70 / 100))"
    using overall_confidence_default by blast
next
  assume "raw_confidence data = Num PosInf"
  then show "overall_confidence coerce data = Inr PosInf"
    by (simp add: overall_confidence_number)
next
  assume v: "video_displayResults coerce hc hm data = Inr (Some r)"
  show "overall_confidence coerce data = Inr (overallConfidence r)"
    and "confidencePercent r = confidence_percent (overallConfidence r)"
    using video_result_fields [OF v] by simp_all
  assume "error_percentage (video_dimensions data) = Undefined"
  then show "confidence_shown r = percent_band (confidencePercent r)"
    using video_result_fields(3) [OF v] by (simp add: confidence_band_absent)
qed (simp_all add: confidence_percent_def math_round_def percent_band_Fin)


theorem confidence_percent_and_bands_witness:
  "(case video_displayResults example_coerce True False body_confidence_92 of
      Inr (Some r) \<Rightarrow>
        overallConfidence r = Fin (92 / 100) \<and> confidencePercent r = Fin 92
        \<and> confidence_shown r = percent_band (Fin 92)
        \<and> confidenceLevel (confidence_shown r) = ''Very High''
    | _ \<Rightarrow> False)
   \<and> \<not> is_num (raw_confidence body_confidence_text)
   \<and> convertible (raw_confidence body_confidence_text)
   \<and> overall_confidence example_coerce body_confidence_text = Inr (Fin (70 / 100))"
proof -
  obtain r where r: "video_displayResults example_coerce True False body_confidence_92
                       = Inr (Some r)"
    by (simp add: body_confidence_92_def js_eval video_eval)
  have c: "js_prop body_confidence_92 ''confidence''
             = Obj [(''overall_confidence'', Num (Fin (92 / 100)))]"
          "map_of [(''overall_confidence'', Num (Fin (92 / 100)))] ''overall_confidence''
             = Some (Num (Fin (92 / 100)))"
    by (simp_all add: body_confidence_92_def js_prop_def)
  have e: "error_percentage (video_dimensions body_confidence_92) = Undefined"
    by (simp add: body_confidence_92_def error_percentage_def video_dimensions_def js_eval)
  have t: "raw_confidence body_confidence_text = Str ''high''"
    by (simp add: body_confidence_text_def raw_confidence_def js_eval index_of_key_not_numeric)
  have v: "\<not> vision_api_used body_confidence_text"
    by (simp add: body_confidence_text_def vision_api_used_def js_eval)
  note A = confidence_percent_and_bands
             [of body_confidence_92 "[(''overall_confidence'', Num (Fin (92 / 100)))]"
                 example_coerce 92 True False r]
  note B = confidence_percent_and_bands
             [of body_confidence_text "[]" example_coerce 92 True False r]
  have 1: "overall_confidence example_coerce body_confidence_92 = Inr (Fin (92 / 100))"
    using A c by blast
  have 2: "overall_confidence example_coerce body_confidence_92 = Inr (overallConfidence r)"
          "confidencePercent r = confidence_percent (overallConfidence r)"
          "confidence_shown r = percent_band (confidencePercent r)"
    using A r e by blast+
  have 3: "overall_confidence example_coerce body_confidence_text = Inr (Fin (70 / 100))"
    using B t v by (simp add: is_num_def)
  from 1 2 have "overallConfidence r = Fin (92 / 100)" by simp
  with 2 have "confidencePercent r = Fin 92" "confidence_shown r = percent_band (Fin 92)"
    by (simp_all add: confidence_percent_def math_round_def)
  with \<open>overallConfidence r = Fin (92 / 100)\<close> 3 t r show ?thesis
    by (simp add: percent_band_def num_ge_def is_num_def)
qed



section \<open>Rendering responses of the expected shape\<close>


lemma finite_value_Fin [simp]: "finite_value (Num (Fin x))"
  by (simp add: finite_value_def)


lemma finite_or_missing_simps [simp]:
  "finite_or_missing Undefined" "finite_or_missing Null" "finite_or_missing (Num (Fin x))"
  by (simp_all add: finite_or_missing_def nullish_def)







lemma js_prop_empty [simp]: "js_prop (Obj []) k = Undefined"
  by (simp add: js_prop_def)



















lemma object_or_missing_simps [simp]:
  "object_or_missing P Undefined" "object_or_missing P Null"
  by (simp_all add: object_or_missing_def nullish_def)

lemma text_or_missing_simps [simp]:
  "text_or_missing Undefined" "text_or_missing Null" "text_or_missing (Str s)"
  by (simp_all add: text_or_missing_def)

lemma is_obj_Obj [simp]: "is_obj (Obj kvs)"
  by (simp add: is_obj_def)











lemma default_confidence_finite:
  "\<exists>x. (if b then Fin (90 / 100) else Fin (70 / 100)) = Fin x"
  by (cases b; simp only: if_True if_False; blast)























end
